theory Spec2Isabelle
  imports Complex_Main "HOL-Library.List_Lexorder" "HOL-Library.Char_ord"
    "HOL-Library.Product_Lexorder" "HOL-Library.Multiset"
begin

section \<open>The report generator of \<^verbatim>\<open>execute.py\<close>\<close>

text \<open>
  The program is one pandas pipeline (\<^verbatim>\<open>main\<close>): it loads a table, derives the
  column \<^verbatim>\<open>revenue\<close>, parses \<^verbatim>\<open>date\<close>, and computes four metrics.
  A data frame is modelled by its columns, a column by its dtype and the list of its
  cells. The cells of an \<^verbatim>\<open>int64\<close> column are integers, and their product wraps
  around at 64 bits. The cells of a \<^verbatim>\<open>float64\<close> column are exact numbers
  (\<open>rat\<close>): rounding error, overflow to an infinity and NaN that float arithmetic
  produces are outside the model, and the statements about the run of \<^verbatim>\<open>main\<close> on
  every frame bound the numbers of the input for that reason. The labels of regions and products are texts; a label
  that \<^verbatim>\<open>read_csv\<close> reads as missing is dropped where the code drops it. A date
  is a calendar date without a time of day, and a parsed date is its day number; an
  empty date cell is \<open>NaT\<close>.

  The first part models the metrics on a table without missing cells, one record per
  row. The second part models the frame that \<^verbatim>\<open>read_csv\<close> returns and the whole
  run of \<^verbatim>\<open>main\<close> on it.
\<close>

subsection \<open>The derived table\<close>

text \<open>
  One record of the table after lines 12 and 16: the parsed date, the two labels and the
  derived revenue. The revenue is a number when both \<^verbatim>\<open>units\<close> and \<^verbatim>\<open>price\<close>
  are numeric columns, and a text when one of them has dtype \<^verbatim>\<open>object\<close>.
\<close>

record 'v row =
  date :: int
  region :: string
  product' :: string
  revenue :: 'v

record report =
  row_count :: nat
  regions_count :: nat
  top_n_products_by_revenue :: "(string \<times> rat) list"
  rolling_7d_revenue_by_region :: "(string \<times> rat option) list"

subsection \<open>Library operations\<close>

text \<open>
  \<^verbatim>\<open>Series.nunique()\<close>: the number of distinct values of a column; the missing
  cells, which it does not count, are left out before it is applied
  (\<open>region_labels\<close> below).
\<close>

definition nunique :: "'a list \<Rightarrow> nat" where
  "nunique xs = length (remdups xs)"

text \<open>
  \<^verbatim>\<open>groupby(keys)[col].agg()\<close> with the default \<^verbatim>\<open>sort=True\<close>: one entry per distinct
  key, the keys in ascending order, each group aggregated over its cells in row order.
  The aggregation is \<open>sum_list\<close> for a numeric column and \<open>concat\<close> for an
  \<^verbatim>\<open>object\<close> column of texts (\<^verbatim>\<open>+\<close> on \<^verbatim>\<open>str\<close>).
\<close>

definition groupby_agg :: "('v list \<Rightarrow> 'v) \<Rightarrow> ('k::linorder \<times> 'v) list \<Rightarrow> ('k \<times> 'v) list" where
  "groupby_agg agg kvs =
     map (\<lambda>k. (k, agg (map snd (filter (\<lambda>kv. fst kv = k) kvs))))
       (sort (remdups (map fst kvs)))"


definition sort_values_desc :: "('k \<times> 'v::linorder) list \<Rightarrow> ('k \<times> 'v) list" where
  "sort_values_desc s = rev (sort_key snd (rev s))"

text \<open>\<^verbatim>\<open>head(n)\<close>: the first \<open>n\<close> entries.\<close>

definition head :: "nat \<Rightarrow> 'a list \<Rightarrow> 'a list" where
  "head n xs = take n xs"

text \<open>
  Python's \<^verbatim>\<open>round(x, 2)\<close> on exact numbers: to the nearest multiple of \<open>1/100\<close>,
  a tie to the even one.
\<close>

definition round_half_even :: "rat \<Rightarrow> int" where
  "round_half_even q =
     (let f = \<lfloor>q\<rfloor>; d = q - of_int f in
      if d < 1 / 2 then f
      else if 1 / 2 < d then f + 1
      else if even f then f else f + 1)"

definition py_round2 :: "rat \<Rightarrow> rat" where
  "py_round2 q = of_int (round_half_even (q * 100)) / 100"

subsection \<open>Top products (lines 25 to 40)\<close>

definition top_products :: "('v::linorder list \<Rightarrow> 'v) \<Rightarrow> 'v row list \<Rightarrow> (string \<times> 'v) list" where
  "top_products agg df =
     head 3 (sort_values_desc (groupby_agg agg (map (\<lambda>r. (product' r, revenue r)) df)))"

definition top_products_list :: "rat row list \<Rightarrow> (string \<times> rat) list" where
  "top_products_list df = map (\<lambda>(p, v). (p, py_round2 v)) (top_products sum_list df)"

subsection \<open>Rolling average per region (lines 45 to 67)\<close>

text \<open>
  Line 46: the daily revenue of every \<open>(region, date)\<close> pair, the pairs in ascending
  order. Line 50: \<^verbatim>\<open>set_index('date').sort_index()\<close> orders the rows by date.
\<close>

definition daily_region_revenue :: "('v list \<Rightarrow> 'v) \<Rightarrow> 'v row list \<Rightarrow> ((string \<times> int) \<times> 'v) list" where
  "daily_region_revenue agg df = groupby_agg agg (map (\<lambda>r. ((region r, date r), revenue r)) df)"

definition sort_index :: "((string \<times> int) \<times> 'v) list \<Rightarrow> ((string \<times> int) \<times> 'v) list" where
  "sort_index t = sort_key (\<lambda>kv. snd (fst kv)) t"

text \<open>
  Line 54: \<^verbatim>\<open>groupby('region')\<close> yields the regions in ascending order, each with
  its group: the rows of the region (date and daily revenue) in the order of the frame.
\<close>

definition get_group :: "((string \<times> int) \<times> 'v) list \<Rightarrow> string \<Rightarrow> (int \<times> 'v) list" where
  "get_group t k = map (\<lambda>kv. (snd (fst kv), snd kv)) (filter (\<lambda>kv. fst (fst kv) = k) t)"

definition groupby_region :: "((string \<times> int) \<times> 'v) list \<Rightarrow> (string \<times> (int \<times> 'v) list) list" where
  "groupby_region t =
     map (\<lambda>k. (k, get_group t k)) (sort (remdups (map (\<lambda>kv. fst (fst kv)) t)))"

text \<open>
  Line 58: \<^verbatim>\<open>rolling(window='7D', min_periods=1).mean()\<close>. For the row at position
  \<open>i\<close> pandas' window indexer (closed on the right) advances the start of the window
  over the rows up to \<open>i\<close> while their date is seven days or more before the date of
  row \<open>i\<close>; the window ends with row \<open>i\<close>. The mean of a window with fewer than
  \<^verbatim>\<open>min_periods = 1\<close> observations is NaN, written \<open>None\<close>.
\<close>

definition window_7D :: "(int \<times> 'v) list \<Rightarrow> nat \<Rightarrow> 'v list" where
  "window_7D s i = map snd (dropWhile (\<lambda>dv. 7 \<le> fst (s ! i) - fst dv) (take (Suc i) s))"

definition mean :: "rat list \<Rightarrow> rat option" where
  "mean vs = (if 1 \<le> length vs then Some (sum_list vs / of_nat (length vs)) else None)"

definition rolling_7D_mean :: "(int \<times> rat) list \<Rightarrow> rat option list" where
  "rolling_7D_mean s = map (\<lambda>i. mean (window_7D s i)) [0..<length s]"

text \<open>Line 62: the last value of the rolling series, NaN when the series is empty.\<close>

definition last_rolling_value :: "(int \<times> rat) list \<Rightarrow> rat option" where
  "last_rolling_value grp =
     (let rolling_avg = rolling_7D_mean grp in
      if rolling_avg = [] then None else last rolling_avg)"

text \<open>Lines 65 to 67: NaN becomes \<^verbatim>\<open>None\<close>, a number is rounded.\<close>

definition region_entry :: "string \<Rightarrow> (int \<times> rat) list \<Rightarrow> string \<times> rat option" where
  "region_entry region_name grp =
     (region_name, map_option py_round2 (last_rolling_value grp))"

definition rolling_by_region :: "rat row list \<Rightarrow> (string \<times> rat option) list" where
  "rolling_by_region df =
     map (\<lambda>(region_name, grp). region_entry region_name grp)
       (groupby_region (sort_index (daily_region_revenue sum_list df)))"

subsection \<open>The report of a numeric table (lines 18 to 75)\<close>

definition result_json :: "rat row list \<Rightarrow> report" where
  "result_json df =
     \<lparr>row_count = length df,
      regions_count = nunique (map region df),
      top_n_products_by_revenue = top_products_list df,
      rolling_7d_revenue_by_region = rolling_by_region df\<rparr>"

subsection \<open>Loading and deriving (lines 9 to 16)\<close>

text \<open>
  The frame returned by \<^verbatim>\<open>read_csv\<close>. A numeric column is \<^verbatim>\<open>int64\<close> when every
  cell is an integer literal (within 64 bits) and \<^verbatim>\<open>float64\<close> when every cell is a
  number; a column with a cell that is neither a number nor a marker of a missing value
  has dtype \<^verbatim>\<open>object\<close> and holds the text of every cell. The label columns hold the
  text of their cells; the markers of a missing value among them are read as missing by
  \<open>read_label\<close>. A cell of the date column is a text that \<^verbatim>\<open>to_datetime\<close>
  parses to a day, an empty cell (\<open>NaT\<close>), or a text that it cannot parse. Not
  represented are: a missing cell of \<^verbatim>\<open>units\<close> or \<^verbatim>\<open>price\<close>, a label column
  that \<^verbatim>\<open>read_csv\<close> reads as numbers or truth values, and the values \<^verbatim>\<open>inf\<close>
  and \<^verbatim>\<open>nan\<close>. The predicates \<open>text_column\<close> and \<open>labelled_frame\<close> below say
  which frames of this type are frames of \<^verbatim>\<open>read_csv\<close>.
\<close>

datatype error = TypeError | ValueError | DataError

datatype column = Int64 "int list" | Float64 "rat list" | Object "string list"

datatype date_cell = Day int | NaT | Unparseable

record frame =
  date_col :: "date_cell list"
  region_col :: "string list"
  product_col :: "string list"
  units_col :: column
  price_col :: column

fun len_col :: "column \<Rightarrow> nat" where
  "len_col (Int64 xs) = length xs"
| "len_col (Float64 xs) = length xs"
| "len_col (Object xs) = length xs"

text \<open>All columns of a frame have the length of its index.\<close>

definition wf_frame :: "frame \<Rightarrow> bool" where
  "wf_frame df =
     (length (region_col df) = length (date_col df) \<and>
      length (product_col df) = length (date_col df) \<and>
      len_col (units_col df) = length (date_col df) \<and>
      len_col (price_col df) = length (date_col df))"

text \<open>
  The texts that \<^verbatim>\<open>read_csv\<close> reads as a missing value (its default
  \<^verbatim>\<open>na_values\<close>), and the label it keeps of a cell.
\<close>

definition na_values :: "string list" where
  "na_values =
     ['''', ''#N/A'', ''#N/A N/A'', ''#NA'', ''-1.#IND'', ''-1.#QNAN'', ''-NaN'', ''-nan'',
      ''1.#IND'', ''1.#QNAN'', ''<NA>'', ''N/A'', ''NA'', ''NULL'', ''NaN'', ''None'',
      ''n/a'', ''nan'', ''null'']"

definition read_label :: "string \<Rightarrow> string option" where
  "read_label s = (if s \<in> set na_values then None else Some s)"

text \<open>
  Python's \<^verbatim>\<open>str * int\<close> repeats the text; a count below one gives the empty text.
  The product of two \<^verbatim>\<open>int64\<close> cells wraps around at 64 bits.
\<close>

definition str_repeat :: "string \<Rightarrow> int \<Rightarrow> string" where
  "str_repeat s n = concat (replicate (nat n) s)"

definition wrap_int64 :: "int \<Rightarrow> int" where
  "wrap_int64 x = (x + 2 ^ 63) mod 2 ^ 64 - 2 ^ 63"

text \<open>
  Line 12: \<^verbatim>\<open>df["units"] * df["price"]\<close>, cell by cell. Two numeric columns are
  multiplied as numbers. A text and an \<^verbatim>\<open>int64\<close> cell are multiplied by Python's
  sequence repetition, which is no error. A text times a float, and a text times a
  text, raise \<^verbatim>\<open>TypeError\<close> at the first row.
\<close>

fun mul_col :: "column \<Rightarrow> column \<Rightarrow> error + column" where
  "mul_col (Int64 us) (Int64 ps) = Inr (Int64 (map2 (\<lambda>u p. wrap_int64 (u * p)) us ps))"
| "mul_col (Int64 us) (Float64 ps) = Inr (Float64 (map2 (\<lambda>u p. of_int u * p) us ps))"
| "mul_col (Float64 us) (Int64 ps) = Inr (Float64 (map2 (\<lambda>u p. u * of_int p) us ps))"
| "mul_col (Float64 us) (Float64 ps) = Inr (Float64 (map2 (*) us ps))"
| "mul_col (Object us) (Int64 ps) = Inr (Object (map2 str_repeat us ps))"
| "mul_col (Int64 us) (Object ps) = Inr (Object (map2 (\<lambda>u p. str_repeat p u) us ps))"
| "mul_col (Object us) (Float64 ps) = (if zip us ps = [] then Inr (Object []) else Inl TypeError)"
| "mul_col (Float64 us) (Object ps) = (if zip us ps = [] then Inr (Object []) else Inl TypeError)"
| "mul_col (Object us) (Object ps) = (if zip us ps = [] then Inr (Object []) else Inl TypeError)"

text \<open>
  Line 16: \<^verbatim>\<open>pd.to_datetime\<close> with the default \<^verbatim>\<open>errors='raise'\<close>. An empty
  cell stays \<open>NaT\<close>, written \<open>None\<close>; a text that does not parse raises.
\<close>

fun to_datetime :: "date_cell list \<Rightarrow> error + int option list" where
  "to_datetime [] = Inr []"
| "to_datetime (Day d # cs) =
     (case to_datetime cs of Inl e \<Rightarrow> Inl e | Inr ds \<Rightarrow> Inr (Some d # ds))"
| "to_datetime (NaT # cs) =
     (case to_datetime cs of Inl e \<Rightarrow> Inl e | Inr ds \<Rightarrow> Inr (None # ds))"
| "to_datetime (Unparseable # cs) = Inl ValueError"

text \<open>
  The rows of the derived table: date, region, product and revenue, a missing date or
  label written \<open>None\<close>.
\<close>

type_synonym 'v loaded_row = "int option \<times> string option \<times> string option \<times> 'v"

definition load_rows :: "int option list \<Rightarrow> string list \<Rightarrow> string list \<Rightarrow> 'v list \<Rightarrow> 'v loaded_row list" where
  "load_rows ds rs ps vs = zip ds (zip (map read_label rs) (zip (map read_label ps) vs))"

text \<open>
  What the aggregations read of the table. \<^verbatim>\<open>groupby\<close> and \<^verbatim>\<open>nunique\<close> have the
  default \<^verbatim>\<open>dropna=True\<close>: \<^verbatim>\<open>groupby("product")\<close> skips the rows without a
  product, \<^verbatim>\<open>groupby(['region', 'date'])\<close> the rows without a region or without a
  date, and \<^verbatim>\<open>nunique\<close> the missing regions.
\<close>

definition product_revenue :: "'v loaded_row list \<Rightarrow> (string \<times> 'v) list" where
  "product_revenue t = List.map_filter (\<lambda>(d, r, p, v). map_option (\<lambda>p'. (p', v)) p) t"

definition region_date_revenue :: "'v loaded_row list \<Rightarrow> ((string \<times> int) \<times> 'v) list" where
  "region_date_revenue t =
     List.map_filter (\<lambda>(d, r, p, v).
       case (r, d) of (Some r', Some d') \<Rightarrow> Some ((r', d'), v) | _ \<Rightarrow> None) t"

definition region_labels :: "'v loaded_row list \<Rightarrow> string list" where
  "region_labels t = List.map_filter (\<lambda>(d, r, p, v). r) t"

text \<open>Lines 28 to 34 and lines 50 to 67 on the series that the grouping reads.\<close>

definition rank_products :: "('v::linorder list \<Rightarrow> 'v) \<Rightarrow> (string \<times> 'v) list \<Rightarrow> (string \<times> 'v) list" where
  "rank_products agg kvs = head 3 (sort_values_desc (groupby_agg agg kvs))"

definition rolling_of_daily :: "((string \<times> int) \<times> rat) list \<Rightarrow> (string \<times> rat option) list" where
  "rolling_of_daily daily =
     map (\<lambda>(region_name, grp). region_entry region_name grp) (groupby_region (sort_index daily))"

text \<open>The report of a table with numeric revenue (lines 18 to 75).\<close>

definition report_numeric :: "rat loaded_row list \<Rightarrow> report" where
  "report_numeric t =
     \<lparr>row_count = length t,
      regions_count = nunique (region_labels t),
      top_n_products_by_revenue =
        map (\<lambda>(p, v). (p, py_round2 v)) (rank_products sum_list (product_revenue t)),
      rolling_7d_revenue_by_region =
        rolling_of_daily (groupby_agg sum_list (region_date_revenue t))\<rparr>"

text \<open>A table without missing cells, as records.\<close>

definition make_rows :: "int list \<Rightarrow> string list \<Rightarrow> string list \<Rightarrow> 'v list \<Rightarrow> 'v row list" where
  "make_rows ds rs ps vs =
     map (\<lambda>(d, r, p, v). \<lparr>date = d, region = r, product' = p, revenue = v\<rparr>)
       (zip ds (zip rs (zip ps vs)))"

subsection \<open>The report of a table whose revenue is a text\<close>

text \<open>
  Python's \<^verbatim>\<open>float(s)\<close> on a text, for the finite decimal literals: blanks around
  the literal, an optional sign, digits with an optional fraction, an optional
  exponent, single underscores between digits. The texts \<^verbatim>\<open>inf\<close>, \<^verbatim>\<open>infinity\<close>
  and \<^verbatim>\<open>nan\<close> and digits beyond ASCII, which Python accepts as well, are not
  interpreted here and count as errors.
\<close>

definition is_digit :: "char \<Rightarrow> bool" where
  "is_digit c = (CHR ''0'' \<le> c \<and> c \<le> CHR ''9'')"

definition is_space :: "char \<Rightarrow> bool" where
  "is_space c = (c \<in> set [CHR '' '', CHR 0x09, CHR 0x0A, CHR 0x0B, CHR 0x0C, CHR 0x0D])"

definition strip :: "string \<Rightarrow> string" where
  "strip s = rev (dropWhile is_space (rev (dropWhile is_space s)))"

definition skip_underscore :: "string \<Rightarrow> string" where
  "skip_underscore t =
     (case t of
        u # d # t' \<Rightarrow> if u = CHR ''_'' \<and> is_digit d then d # t' else t
      | _ \<Rightarrow> t)"

function take_digits :: "string \<Rightarrow> string \<times> string" where
  "take_digits [] = ([], [])"
| "take_digits (c # t) =
     (if is_digit c
      then (let (ds, r) = take_digits (skip_underscore t) in (c # ds, r))
      else ([], c # t))"
  by pat_completeness auto
termination
  by (relation "measure length") (auto simp: skip_underscore_def split: list.splits)

definition digits_val :: "string \<Rightarrow> nat" where
  "digits_val s = foldl (\<lambda>a c. 10 * a + (of_char c - 48)) 0 s"

definition split_sign :: "string \<Rightarrow> bool \<times> string" where
  "split_sign s =
     (case s of
        [] \<Rightarrow> (False, [])
      | c # t \<Rightarrow> if c = CHR ''-'' then (True, t) else if c = CHR ''+'' then (False, t) else (False, s))"

definition py_float :: "string \<Rightarrow> error + rat" where
  "py_float s =
     (let (neg, body) = split_sign (strip s);
          (ip, r1) = take_digits body;
          (fp, r2) = (case r1 of
                        [] \<Rightarrow> ([], [])
                      | c # t \<Rightarrow> if c = CHR ''.'' then take_digits t else ([], r1));
          m = (if neg then - 1 else 1) * of_nat (digits_val (ip @ fp)) / 10 ^ length fp
      in if ip = [] \<and> fp = [] then Inl ValueError
         else (case r2 of
                 [] \<Rightarrow> Inr m
               | c # t \<Rightarrow>
                   if c = CHR ''e'' \<or> c = CHR ''E'' then
                     (let (eneg, t') = split_sign t; (ds, r3) = take_digits t' in
                      if ds \<noteq> [] \<and> r3 = []
                      then Inr (if eneg then m / 10 ^ digits_val ds else m * 10 ^ digits_val ds)
                      else Inl ValueError)
                   else Inl ValueError))"

text \<open>The results of a list of computations, or the first error.\<close>

fun sequence :: "(error + 'a) list \<Rightarrow> error + 'a list" where
  "sequence [] = Inr []"
| "sequence (x # xs) =
     (case x of
        Inl e \<Rightarrow> Inl e
      | Inr v \<Rightarrow> (case sequence xs of Inl e \<Rightarrow> Inl e | Inr vs \<Rightarrow> Inr (v # vs)))"

text \<open>
  Lines 37 to 40 on texts: the group sums are concatenations, sorted as texts, and
  \<^verbatim>\<open>float(row["revenue"])\<close> raises \<^verbatim>\<open>ValueError\<close> on a text that is no number.
\<close>

definition top_products_list_object :: "string loaded_row list \<Rightarrow> error + (string \<times> rat) list" where
  "top_products_list_object t =
     sequence (map (\<lambda>(p, s). case py_float s of Inl e \<Rightarrow> Inl e | Inr v \<Rightarrow> Inr (p, py_round2 v))
       (rank_products concat (product_revenue t)))"

text \<open>
  Line 58 on texts: the rolling window casts the column of the group to
  \<^verbatim>\<open>float64\<close>, text by text, and raises \<^verbatim>\<open>DataError\<close> when a text is no number.
\<close>

definition ensure_float64 :: "string list \<Rightarrow> error + rat list" where
  "ensure_float64 ss =
     (case sequence (map py_float ss) of Inl e \<Rightarrow> Inl DataError | Inr vs \<Rightarrow> Inr vs)"

definition rolling_by_region_object :: "string loaded_row list \<Rightarrow> error + (string \<times> rat option) list" where
  "rolling_by_region_object t =
     sequence (map (\<lambda>(region_name, grp).
         case ensure_float64 (map snd grp) of
           Inl e \<Rightarrow> Inl e
         | Inr vs \<Rightarrow> Inr (region_entry region_name (zip (map fst grp) vs)))
       (groupby_region (sort_index (groupby_agg concat (region_date_revenue t)))))"

definition report_object :: "string loaded_row list \<Rightarrow> error + report" where
  "report_object t =
     (case top_products_list_object t of
        Inl e \<Rightarrow> Inl e
      | Inr tops \<Rightarrow>
          (case rolling_by_region_object t of
             Inl e \<Rightarrow> Inl e
           | Inr rolling \<Rightarrow>
               Inr \<lparr>row_count = length t,
                    regions_count = nunique (region_labels t),
                    top_n_products_by_revenue = tops,
                    rolling_7d_revenue_by_region = rolling\<rparr>))"

subsection \<open>The program\<close>

text \<open>
  \<^verbatim>\<open>main\<close>: an exception raised on the way ends the run before line 78 prints the
  report.
\<close>

definition main :: "frame \<Rightarrow> error + report" where
  "main df =
     (case mul_col (units_col df) (price_col df) of
        Inl e \<Rightarrow> Inl e
      | Inr revenue_col \<Rightarrow>
          (case to_datetime (date_col df) of
             Inl e \<Rightarrow> Inl e
           | Inr ds \<Rightarrow>
               (case revenue_col of
                  Int64 vs \<Rightarrow>
                    Inr (report_numeric
                      (load_rows ds (region_col df) (product_col df) (map of_int vs)))
                | Float64 vs \<Rightarrow>
                    Inr (report_numeric (load_rows ds (region_col df) (product_col df) vs))
                | Object ss \<Rightarrow>
                    report_object (load_rows ds (region_col df) (product_col df) ss))))"

text \<open>
  The process: the report reaches the standard output only when \<^verbatim>\<open>main\<close> returns;
  an uncaught exception ends the interpreter with status 1.
\<close>

definition stdout :: "error + report \<Rightarrow> report option" where
  "stdout r = (case r of Inl e \<Rightarrow> None | Inr rep \<Rightarrow> Some rep)"

definition exit_code :: "error + report \<Rightarrow> nat" where
  "exit_code r = (case r of Inl e \<Rightarrow> 1 | Inr rep \<Rightarrow> 0)"

subsection \<open>The window average in the words of the specification\<close>

text \<open>
  The daily revenue of a region on a date is the sum of the revenue of its records; the
  dates of a region are the distinct dates of its records, in ascending order; the
  window average at \<open>d\<close> is the mean of the daily revenue over the dates \<open>d'\<close> of the
  region with \<open>d - 6 \<le> d' \<le> d\<close>; the latest date is the greatest one.
\<close>

definition spec_daily_revenue :: "rat row list \<Rightarrow> string \<Rightarrow> int \<Rightarrow> rat" where
  "spec_daily_revenue df r d =
     sum_list (map revenue (filter (\<lambda>x. region x = r \<and> date x = d) df))"

definition spec_region_dates :: "'v row list \<Rightarrow> string \<Rightarrow> int list" where
  "spec_region_dates df r = sort (remdups (map date (filter (\<lambda>x. region x = r) df)))"

definition spec_window_mean :: "rat row list \<Rightarrow> string \<Rightarrow> int \<Rightarrow> rat" where
  "spec_window_mean df r d =
     (let ds = filter (\<lambda>d'. d - 6 \<le> d' \<and> d' \<le> d) (spec_region_dates df r)
      in sum_list (map (spec_daily_revenue df r) ds) / of_nat (length ds))"

definition spec_latest_date :: "'v row list \<Rightarrow> string \<Rightarrow> int" where
  "spec_latest_date df r = Max (set (map date (filter (\<lambda>x. region x = r) df)))"

subsection \<open>Dtypes and sample inputs\<close>

definition is_numeric :: "column \<Rightarrow> bool" where
  "is_numeric c = (case c of Object ss \<Rightarrow> False | _ \<Rightarrow> True)"

definition is_int64 :: "column \<Rightarrow> bool" where
  "is_int64 c = (case c of Int64 xs \<Rightarrow> True | _ \<Rightarrow> False)"


text \<open>
  A word: letters only, and no spelling, in any case, of a missing value, an infinity
  or a truth value. \<^verbatim>\<open>read_csv\<close> keeps a column with such a cell as texts
  (dtype \<^verbatim>\<open>object\<close>).
\<close>

definition is_letter :: "char \<Rightarrow> bool" where
  "is_letter c = (CHR ''a'' \<le> c \<and> c \<le> CHR ''z'' \<or> CHR ''A'' \<le> c \<and> c \<le> CHR ''Z'')"

definition to_lower :: "char \<Rightarrow> char" where
  "to_lower c = (if CHR ''A'' \<le> c \<and> c \<le> CHR ''Z'' then char_of (of_char c + 32 :: nat) else c)"

definition reserved_words :: "string list" where
  "reserved_words =
     [''nan'', ''null'', ''none'', ''na'', ''inf'', ''infinity'', ''true'', ''false'']"

definition plain_word :: "string \<Rightarrow> bool" where
  "plain_word s = (s \<noteq> [] \<and> list_all is_letter s \<and> map to_lower s \<notin> set reserved_words)"


text \<open>
  A frame as \<^verbatim>\<open>read_csv\<close> returns it: the columns have one length, and the
  columns \<^verbatim>\<open>region\<close> and \<^verbatim>\<open>product\<close> are kept as texts, each holding a word.
\<close>

definition text_labels :: "string list \<Rightarrow> bool" where
  "text_labels ss = list_ex plain_word ss"

definition labelled_frame :: "frame \<Rightarrow> bool" where
  "labelled_frame df =
     (wf_frame df \<and> text_labels (region_col df) \<and> text_labels (product_col df))"

text \<open>The cells of a numeric column as numbers.\<close>

definition numbers :: "column \<Rightarrow> rat list" where
  "numbers c = (case c of Int64 xs \<Rightarrow> map of_int xs | Float64 xs \<Rightarrow> xs | Object ss \<Rightarrow> [])"

text \<open>
  A column whose numbers are far inside the range of \<^verbatim>\<open>float64\<close>, so that
  products and sums of a table of any real size do not overflow.
\<close>

definition in_float_range :: "column \<Rightarrow> bool" where
  "in_float_range c = list_all (\<lambda>x. \<bar>x\<bar> \<le> 10 ^ 100) (numbers c)"


text \<open>
  Region \<open>North\<close> sells on day 1 and on day 10 only; region \<open>South\<close> on days 3, 8
  and 9. Four products.
\<close>

definition gap_rows :: "rat row list" where
  "gap_rows =
     [\<lparr>date = 10, region = ''North'', product' = ''pen'', revenue = 12\<rparr>,
      \<lparr>date = 3, region = ''South'', product' = ''ink'', revenue = 9\<rparr>,
      \<lparr>date = 1, region = ''North'', product' = ''ink'', revenue = 5\<rparr>,
      \<lparr>date = 9, region = ''South'', product' = ''cap'', revenue = 4\<rparr>,
      \<lparr>date = 10, region = ''North'', product' = ''nib'', revenue = 8\<rparr>,
      \<lparr>date = 8, region = ''South'', product' = ''pen'', revenue = 2\<rparr>]"

definition gap_frame :: frame where
  "gap_frame =
     \<lparr>date_col = [Day 10, Day 3, Day 1, Day 9, Day 10, Day 8],
      region_col = [''North'', ''South'', ''North'', ''South'', ''North'', ''South''],
      product_col = [''pen'', ''ink'', ''ink'', ''cap'', ''nib'', ''pen''],
      units_col = Int64 [6, 3, 2, 8, 4, 1],
      price_col = Float64 [2, 3, 5 / 2, 1 / 2, 2, 2]\<rparr>"

text \<open>One record whose revenue has three decimals.\<close>

definition round_rows :: "rat row list" where
  "round_rows = [\<lparr>date = 1, region = ''North'', product' = ''pen'', revenue = 617 / 500\<rparr>]"

text \<open>A file with a header and no data row: \<^verbatim>\<open>read_csv\<close> gives empty \<^verbatim>\<open>object\<close> columns.\<close>

definition empty_frame :: frame where
  "empty_frame =
     \<lparr>date_col = [], region_col = [], product_col = [],
      units_col = Object [], price_col = Object []\<rparr>"





text \<open>
  Texts of \<^verbatim>\<open>units\<close> beside integer prices, one product and one date per text
  but the last three rows: the revenue texts of the products are \<^verbatim>\<open>9\<close>,
  \<^verbatim>\<open>2\<close> and \<^verbatim>\<open>1e1\<close>.
\<close>

definition text_rank_frame :: frame where
  "text_rank_frame =
     \<lparr>date_col = [Day 1, Day 2, Day 3, Day 3, Day 3],
      region_col = [''North'', ''North'', ''North'', ''North'', ''North''],
      product_col = [''cap'', ''ink'', ''pen'', ''pen'', ''pen''],
      units_col = Object [''9'', ''2'', ''1'', ''e'', ''1''],
      price_col = Int64 [1, 1, 1, 1, 1]\<rparr>"

text \<open>A product with the label \<^verbatim>\<open>NA\<close>, which \<^verbatim>\<open>read_csv\<close> reads as missing.\<close>

definition na_product_frame :: frame where
  "na_product_frame =
     \<lparr>date_col = [Day 1, Day 1], region_col = [''North'', ''North''],
      product_col = [''NA'', ''pen''], units_col = Int64 [2, 3], price_col = Float64 [7 / 2, 2]\<rparr>"

text \<open>Region \<open>West\<close> has one row, and its date cell is empty.\<close>

definition undated_region_frame :: frame where
  "undated_region_frame =
     \<lparr>date_col = [Day 1, NaT], region_col = [''North'', ''West''],
      product_col = [''pen'', ''ink''], units_col = Int64 [2, 3], price_col = Float64 [7 / 2, 2]\<rparr>"

text \<open>A region with the label \<^verbatim>\<open>NA\<close>.\<close>

definition na_region_frame :: frame where
  "na_region_frame =
     \<lparr>date_col = [Day 1, Day 1], region_col = [''NA'', ''EU''],
      product_col = [''pen'', ''ink''], units_col = Int64 [2, 3], price_col = Float64 [7 / 2, 2]\<rparr>"

text \<open>Units and price \<open>2 ^ 32\<close>: the product \<open>2 ^ 64\<close> does not fit 64 bits.\<close>

definition overflow_frame :: frame where
  "overflow_frame =
     \<lparr>date_col = [Day 1], region_col = [''North''], product_col = [''pen''],
      units_col = Int64 [4294967296], price_col = Int64 [4294967296]\<rparr>"

section \<open>Auxiliary facts\<close>

subsection \<open>Evaluation\<close>

text \<open>The definitions that evaluate the report of a numeric sample input.\<close>

lemmas eval_defs =
  main_def report_numeric_def load_rows_def read_label_def na_values_def product_revenue_def
  region_date_revenue_def region_labels_def rank_products_def rolling_of_daily_def
  List.map_filter_def result_json_def make_rows_def nunique_def top_products_list_def top_products_def
  head_def sort_values_desc_def groupby_agg_def py_round2_def round_half_even_def
  rolling_by_region_def groupby_region_def get_group_def sort_index_def
  daily_region_revenue_def region_entry_def last_rolling_value_def rolling_7D_mean_def
  window_7D_def mean_def

subsection \<open>Grouping, sorting and rounding\<close>

lemma length_head: "length (head n xs) = min n (length xs)"
  by (simp add: head_def min.commute)

lemma nunique_card: "nunique xs = card (set xs)"
  by (simp add: nunique_def length_remdups_card_conv)

lemma map_fst_groupby_agg: "map fst (groupby_agg agg kvs) = sort (remdups (map fst kvs))"
  by (simp add: groupby_agg_def comp_def)

lemma length_groupby_agg: "length (groupby_agg agg kvs) = nunique (map fst kvs)"
  by (simp add: groupby_agg_def nunique_def)

lemma length_sort_values_desc: "length (sort_values_desc s) = length s"
  by (simp add: sort_values_desc_def)

lemma sorted_sort_values_desc: "sorted_wrt (\<lambda>a b. snd b \<le> snd a) (sort_values_desc s)"
proof -
  have "sorted (map snd (sort_key snd (rev s)))" by (rule sorted_sort_key)
  then have "sorted_wrt (\<lambda>a b. snd a \<le> snd b) (sort_key snd (rev s))"
    by (simp add: sorted_wrt_map)
  then show ?thesis
    by (simp add: sort_values_desc_def sorted_wrt_rev)
qed

lemma sorted_wrt_head: "sorted_wrt R xs \<Longrightarrow> sorted_wrt R (head n xs)"
  unfolding head_def by (rule sorted_wrt_take)

lemma top_products_sorted: "sorted_wrt (\<lambda>a b. snd b \<le> snd a) (top_products agg df)"
  unfolding top_products_def by (rule sorted_wrt_head, rule sorted_sort_values_desc)

lemma length_top_products:
  "length (top_products agg df) = min 3 (card (set (map product' df)))"
  by (simp add: top_products_def length_head length_sort_values_desc length_groupby_agg
      nunique_card comp_def)

lemma round_half_even_near:
  "\<bar>of_int (round_half_even x) - x\<bar> \<le> 1 / 2"
proof -
  define f where "f = \<lfloor>x\<rfloor>"
  define d where "d = x - of_int f"
  have d: "0 \<le> d" "d < 1" unfolding d_def f_def by linarith+
  have x: "x = of_int f + d" by (simp add: d_def)
  have r: "round_half_even x =
      (if d < 1 / 2 then f else if 1 / 2 < d then f + 1 else if even f then f else f + 1)"
    unfolding round_half_even_def Let_def d_def f_def by (rule refl)
  consider "d < 1 / 2" | "1 / 2 < d" | "d = 1 / 2" by linarith
  then show ?thesis
  proof cases
    case 1
    then have "round_half_even x = f" by (simp add: r)
    with 1 d show ?thesis by (simp add: x)
  next
    case 2
    then have "round_half_even x = f + 1" by (simp add: r)
    with 2 d show ?thesis by (simp add: x)
  next
    case 3
    then have "round_half_even x = f \<or> round_half_even x = f + 1" by (simp add: r)
    with 3 show ?thesis by (auto simp: x)
  qed
qed

lemma round_half_even_mono:
  assumes "x \<le> y"
  shows "round_half_even x \<le> round_half_even y"
proof (rule ccontr)
  assume "\<not> ?thesis"
  then have lt: "round_half_even y + 1 \<le> round_half_even x" by simp
  then have "(of_int (round_half_even y) :: rat) + 1 \<le> of_int (round_half_even x)"
    by (metis of_int_1 of_int_add of_int_le_iff)
  moreover have "\<bar>of_int (round_half_even x) - x\<bar> \<le> 1 / 2" "\<bar>of_int (round_half_even y) - y\<bar> \<le> 1 / 2"
    by (rule round_half_even_near)+
  ultimately have "y \<le> x" by linarith
  with assms have "x = y" by simp
  with lt show False by simp
qed

lemma py_round2_mono: "x \<le> y \<Longrightarrow> py_round2 x \<le> py_round2 y"
  by (simp add: py_round2_def round_half_even_mono divide_right_mono)

lemma top_products_list_sorted:
  "sorted_wrt (\<lambda>a b. snd b \<le> snd a) (top_products_list df)"
proof -
  have "sorted_wrt (\<lambda>a b. py_round2 (snd b) \<le> py_round2 (snd a)) (top_products sum_list df)"
    by (rule sorted_wrt_mono_rel [OF _ top_products_sorted]) (simp add: py_round2_mono)
  then show ?thesis
    by (simp add: top_products_list_def sorted_wrt_map case_prod_unfold)
qed

subsection \<open>The series of one region\<close>

lemma map_fst_groupby_region:
  "map fst (groupby_region t) = sort (remdups (map (\<lambda>kv. fst (fst kv)) t))"
  by (simp add: groupby_region_def comp_def)

lemma set_sort_index: "set (sort_index t) = set t"
  by (simp add: sort_index_def)

lemma regions_of_daily:
  "set (map (\<lambda>kv. fst (fst kv)) (daily_region_revenue agg df)) = set (map region df)"
proof -
  have "map (\<lambda>kv. fst (fst kv)) (daily_region_revenue agg df)
      = map fst (map fst (daily_region_revenue agg df))" by simp
  also have "set \<dots> = fst ` set (map (\<lambda>r. (region r, date r)) df)"
    unfolding daily_region_revenue_def map_fst_groupby_agg by (simp add: comp_def)
  also have "\<dots> = set (map region df)" by (force simp: image_iff)
  finally show ?thesis .
qed

lemma rolling_keys:
  "map fst (groupby_region (sort_index (daily_region_revenue agg df))) = sort (remdups (map region df))"
proof -
  let ?t = "sort_index (daily_region_revenue agg df)"
  have "set (map (\<lambda>kv. fst (fst kv)) ?t) = set (map region df)"
    using regions_of_daily [of agg df] by (simp add: sort_index_def)
  then have "sort (remdups (map (\<lambda>kv. fst (fst kv)) ?t)) = sort (remdups (map region df))"
    by (metis sorted_list_of_set_sort_remdups)
  then show ?thesis by (simp add: map_fst_groupby_region)
qed

text \<open>The keys of one region, in the sorted list of (region, date) keys.\<close>

lemma sorted_pairs_snd:
  "sorted (ks :: ('a::linorder \<times> 'b::linorder) list) \<Longrightarrow> sorted (map snd (filter (\<lambda>k. fst k = r) ks))"
  by (induction ks) (auto simp: less_eq_prod_def)

lemma region_keys:
  fixes ks :: "(string \<times> int) list"
  shows "map snd (filter (\<lambda>k. fst k = r) (sort (remdups ks)))
       = sort (remdups (map snd (filter (\<lambda>k. fst k = r) ks)))"
proof (rule sorted_distinct_set_unique)
  show "sorted (map snd (filter (\<lambda>k. fst k = r) (sort (remdups ks))))"
    by (rule sorted_pairs_snd) simp
  have "inj_on snd (set (filter (\<lambda>k. fst k = r) (sort (remdups ks))))"
    by (auto simp: inj_on_def)
  then show "distinct (map snd (filter (\<lambda>k. fst k = r) (sort (remdups ks))))"
    by (simp add: distinct_map)
  show "set (map snd (filter (\<lambda>k. fst k = r) (sort (remdups ks))))
      = set (sort (remdups (map snd (filter (\<lambda>k. fst k = r) ks))))"
    by simp
qed simp_all

lemma group_rows:
  "get_group (sort_index (daily_region_revenue sum_list df)) r
   = map (\<lambda>d. (d, spec_daily_revenue df r d)) (spec_region_dates df r)"
proof -
  let ?ks = "map (\<lambda>x. (region x, date x)) df"
  let ?val = "\<lambda>k. sum_list (map snd (filter (\<lambda>kv. fst kv = k) (map (\<lambda>x. ((region x, date x), revenue x)) df)))"
  let ?rk = "filter (\<lambda>k. fst k = r) (sort (remdups ?ks))"
  have daily: "daily_region_revenue sum_list df = map (\<lambda>k. (k, ?val k)) (sort (remdups ?ks))"
    by (simp add: daily_region_revenue_def groupby_agg_def comp_def)
  have flt: "filter (\<lambda>kv. fst (fst kv) = r) (daily_region_revenue sum_list df)
      = map (\<lambda>k. (k, ?val k)) ?rk"
    unfolding daily by (simp add: filter_map comp_def)
  have srt: "sorted (map (\<lambda>kv. snd (fst kv)) (map (\<lambda>k. (k, ?val k)) ?rk))"
    using sorted_pairs_snd [of "sort (remdups ?ks)" r] by (simp add: comp_def)
  have "filter (\<lambda>kv. fst (fst kv) = r) (sort_index (daily_region_revenue sum_list df))
      = sort_key (\<lambda>kv. snd (fst kv)) (map (\<lambda>k. (k, ?val k)) ?rk)"
    unfolding sort_index_def filter_sort flt ..
  also have "\<dots> = map (\<lambda>k. (k, ?val k)) ?rk"
    using srt by (rule sort_key_id_if_sorted)
  finally have "map (\<lambda>kv. (snd (fst kv), snd kv))
     (filter (\<lambda>kv. fst (fst kv) = r) (sort_index (daily_region_revenue sum_list df)))
     = map (\<lambda>k. (snd k, ?val k)) ?rk"
    by (simp add: comp_def)
  also have "\<dots> = map (\<lambda>k. (snd k, spec_daily_revenue df r (snd k))) ?rk"
  proof (rule map_cong [OF refl])
    fix k assume "k \<in> set ?rk"
    then have k: "k = (r, snd k)" by (auto simp: prod_eq_iff)
    have "?val k = sum_list (map revenue (filter (\<lambda>x. (region x, date x) = k) df))"
      by (simp add: filter_map comp_def)
    also have "\<dots> = spec_daily_revenue df r (snd k)"
      by (subst k) (simp add: spec_daily_revenue_def)
    finally show "(snd k, ?val k) = (snd k, spec_daily_revenue df r (snd k))" by simp
  qed
  also have "\<dots> = map (\<lambda>d. (d, spec_daily_revenue df r d)) (map snd ?rk)"
    by (simp add: comp_def)
  also have "map snd ?rk = spec_region_dates df r"
    unfolding region_keys spec_region_dates_def by (simp add: filter_map comp_def)
  finally show ?thesis by (simp only: get_group_def)
qed

lemma group_of_region:
  assumes "(r, s) \<in> set (groupby_region (sort_index (daily_region_revenue sum_list df)))"
  shows "r \<in> set (map region df)"
    and "s = map (\<lambda>d. (d, spec_daily_revenue df r d)) (spec_region_dates df r)"
proof -
  from assms have "r \<in> set (map fst (groupby_region (sort_index (daily_region_revenue sum_list df))))"
    by force
  then show "r \<in> set (map region df)" unfolding rolling_keys by simp
  from assms show "s = map (\<lambda>d. (d, spec_daily_revenue df r d)) (spec_region_dates df r)"
    unfolding groupby_region_def by (auto simp: group_rows)
qed

subsection \<open>The rolling window\<close>

lemma dropWhile_eq_filter:
  "sorted_wrt (\<lambda>a b. \<not> P a \<longrightarrow> \<not> P b) xs \<Longrightarrow> dropWhile P xs = filter (\<lambda>x. \<not> P x) xs"
proof (induction xs)
  case Nil
  then show ?case by simp
next
  case (Cons a xs)
  show ?case
  proof (cases "P a")
    case True
    with Cons show ?thesis by simp
  next
    case False
    with Cons.prems have "\<forall>b\<in>set xs. \<not> P b" by simp
    then have "filter (\<lambda>x. \<not> P x) xs = xs" by (simp add: filter_id_conv)
    with False show ?thesis by simp
  qed
qed

lemma filter_upto_nth:
  fixes ds :: "int list"
  assumes "sorted ds" "distinct ds" "i < length ds"
  shows "filter (\<lambda>d. d \<le> ds ! i) ds = take (Suc i) ds"
proof -
  have lo: "\<forall>d\<in>set (take (Suc i) ds). d \<le> ds ! i"
  proof
    fix d assume "d \<in> set (take (Suc i) ds)"
    then obtain j where "j < Suc i" "j < length ds" "d = ds ! j"
      by (auto simp: in_set_conv_nth)
    with assms show "d \<le> ds ! i" by (simp add: sorted_nth_mono)
  qed
  have hi: "\<forall>d\<in>set (drop (Suc i) ds). \<not> d \<le> ds ! i"
  proof
    fix d assume "d \<in> set (drop (Suc i) ds)"
    then obtain k where "k < length (drop (Suc i) ds)" "d = drop (Suc i) ds ! k"
      by (auto simp: in_set_conv_nth)
    then have j: "Suc i + k < length ds" "d = ds ! (Suc i + k)"
      by simp_all
    with assms have "ds ! i \<le> d" by (simp add: sorted_nth_mono)
    moreover from assms j have "ds ! i \<noteq> d" by (simp add: nth_eq_iff_index_eq)
    ultimately show "\<not> d \<le> ds ! i" by simp
  qed
  have "filter (\<lambda>d. d \<le> ds ! i) ds
      = filter (\<lambda>d. d \<le> ds ! i) (take (Suc i) ds) @ filter (\<lambda>d. d \<le> ds ! i) (drop (Suc i) ds)"
    by (metis append_take_drop_id filter_append)
  also have "filter (\<lambda>d. d \<le> ds ! i) (take (Suc i) ds) = take (Suc i) ds"
    using lo by (simp add: filter_id_conv)
  also have "filter (\<lambda>d. d \<le> ds ! i) (drop (Suc i) ds) = []"
    using hi by (simp add: filter_empty_conv)
  finally show ?thesis by simp
qed

lemma window_7D_calendar:
  fixes ds :: "int list"
  assumes "sorted ds" "distinct ds" "i < length ds"
  shows "window_7D (map (\<lambda>d. (d, f d)) ds) i
       = map f (filter (\<lambda>d'. ds ! i - 6 \<le> d' \<and> d' \<le> ds ! i) ds)"
proof -
  let ?P = "\<lambda>d. 7 \<le> ds ! i - d"
  have "sorted (take (Suc i) ds)" using assms(1) by (rule sorted_wrt_take)
  then have mono: "sorted_wrt (\<lambda>a b. \<not> ?P a \<longrightarrow> \<not> ?P b) (take (Suc i) ds)"
    by (rule sorted_wrt_mono_rel [rotated]) simp
  have "dropWhile (\<lambda>dv. 7 \<le> fst (map (\<lambda>d. (d, f d)) ds ! i) - fst dv) (take (Suc i) (map (\<lambda>d. (d, f d)) ds))
      = map (\<lambda>d. (d, f d)) (dropWhile ?P (take (Suc i) ds))"
    using assms(3) by (simp add: take_map dropWhile_map comp_def)
  also have "dropWhile ?P (take (Suc i) ds) = filter (\<lambda>d. \<not> ?P d) (take (Suc i) ds)"
    using mono by (rule dropWhile_eq_filter)
  also have "\<dots> = filter (\<lambda>d. \<not> ?P d) (filter (\<lambda>d. d \<le> ds ! i) ds)"
    using assms by (simp add: filter_upto_nth)
  also have "\<dots> = filter (\<lambda>d'. ds ! i - 6 \<le> d' \<and> d' \<le> ds ! i) ds"
    by (auto intro: filter_cong)
  finally show ?thesis
    by (simp add: window_7D_def comp_def)
qed

lemma rolling_7D_mean_calendar:
  fixes ds :: "int list"
  assumes "sorted ds" "distinct ds"
  shows "rolling_7D_mean (map (\<lambda>d. (d, f d)) ds)
       = map (\<lambda>d. let w = filter (\<lambda>d'. d - 6 \<le> d' \<and> d' \<le> d) ds
                   in Some (sum_list (map f w) / of_nat (length w))) ds"
proof -
  have "mean (window_7D (map (\<lambda>d. (d, f d)) ds) i)
      = (let w = filter (\<lambda>d'. ds ! i - 6 \<le> d' \<and> d' \<le> ds ! i) ds
         in Some (sum_list (map f w) / of_nat (length w)))" if "i < length ds" for i
  proof -
    from that have "ds ! i \<in> set (filter (\<lambda>d'. ds ! i - 6 \<le> d' \<and> d' \<le> ds ! i) ds)" by simp
    then have "filter (\<lambda>d'. ds ! i - 6 \<le> d' \<and> d' \<le> ds ! i) ds \<noteq> []" by force
    then have "1 \<le> length (filter (\<lambda>d'. ds ! i - 6 \<le> d' \<and> d' \<le> ds ! i) ds)"
      by (simp add: Suc_le_eq)
    then show ?thesis
      by (simp add: window_7D_calendar [OF assms that] mean_def Let_def)
  qed
  then have "rolling_7D_mean (map (\<lambda>d. (d, f d)) ds)
      = map (\<lambda>i. (\<lambda>d. let w = filter (\<lambda>d'. d - 6 \<le> d' \<and> d' \<le> d) ds
                   in Some (sum_list (map f w) / of_nat (length w))) (ds ! i)) [0..<length ds]"
    by (simp add: rolling_7D_mean_def)
  also have "\<dots> = map (\<lambda>d. let w = filter (\<lambda>d'. d - 6 \<le> d' \<and> d' \<le> d) ds
                   in Some (sum_list (map f w) / of_nat (length w))) ds"
    by (rule nth_equalityI) simp_all
  finally show ?thesis .
qed

lemma spec_region_dates_sorted: "sorted (spec_region_dates df r)" "distinct (spec_region_dates df r)"
  by (simp_all add: spec_region_dates_def)

lemma rolling_of_region:
  "rolling_7D_mean (map (\<lambda>d. (d, spec_daily_revenue df r d)) (spec_region_dates df r))
   = map (\<lambda>d. Some (spec_window_mean df r d)) (spec_region_dates df r)"
  by (simp add: rolling_7D_mean_calendar [OF spec_region_dates_sorted] spec_window_mean_def Let_def)

lemma last_sorted_Max:
  fixes xs :: "int list"
  assumes "sorted xs" "xs \<noteq> []"
  shows "last xs = Max (set xs)"
proof -
  have "\<forall>x\<in>set xs. x \<le> last xs"
  proof
    fix x assume "x \<in> set xs"
    then obtain i where "i < length xs" "x = xs ! i" by (auto simp: in_set_conv_nth)
    with assms show "x \<le> last xs"
      by (simp add: last_conv_nth sorted_nth_mono)
  qed
  with assms(2) show ?thesis by (intro Max_eqI [symmetric]) auto
qed

lemma set_spec_region_dates:
  "set (spec_region_dates df r) = date ` {x \<in> set df. region x = r}"
  by (simp add: spec_region_dates_def)

lemma spec_region_dates_nonempty:
  assumes "r \<in> set (map region df)"
  shows "spec_region_dates df r \<noteq> []"
proof -
  from assms have "set (spec_region_dates df r) \<noteq> {}"
    unfolding set_spec_region_dates by auto
  then show ?thesis by auto
qed

lemma last_spec_region_dates:
  assumes "r \<in> set (map region df)"
  shows "last (spec_region_dates df r) = spec_latest_date df r"
proof -
  have "last (spec_region_dates df r) = Max (set (spec_region_dates df r))"
    using spec_region_dates_sorted(1) spec_region_dates_nonempty [OF assms]
    by (rule last_sorted_Max)
  then show ?thesis by (simp add: spec_latest_date_def spec_region_dates_def)
qed

lemma groups_eq:
  "groupby_region (sort_index (daily_region_revenue sum_list df))
   = map (\<lambda>r. (r, map (\<lambda>d. (d, spec_daily_revenue df r d)) (spec_region_dates df r)))
       (sort (remdups (map region df)))"
proof -
  let ?t = "sort_index (daily_region_revenue sum_list df)"
  have "sort (remdups (map (\<lambda>kv. fst (fst kv)) ?t)) = sort (remdups (map region df))"
    using rolling_keys [of sum_list df] by (simp add: map_fst_groupby_region)
  then show ?thesis
    by (simp add: groupby_region_def group_rows)
qed

lemma last_rolling_value_of_region:
  assumes "r \<in> set (map region df)"
  shows "last_rolling_value (map (\<lambda>d. (d, spec_daily_revenue df r d)) (spec_region_dates df r))
       = Some (spec_window_mean df r (spec_latest_date df r))"
  using spec_region_dates_nonempty [OF assms] last_spec_region_dates [OF assms]
  by (simp add: last_rolling_value_def rolling_of_region Let_def last_map)

lemma rolling_by_region_eq:
  "rolling_by_region df
   = map (\<lambda>r. (r, Some (py_round2 (spec_window_mean df r (spec_latest_date df r)))))
       (sort (remdups (map region df)))"
proof -
  have "rolling_by_region df
      = map (\<lambda>r. region_entry r (map (\<lambda>d. (d, spec_daily_revenue df r d)) (spec_region_dates df r)))
          (sort (remdups (map region df)))"
    by (simp add: rolling_by_region_def groups_eq comp_def)
  also have "\<dots> = map (\<lambda>r. (r, Some (py_round2 (spec_window_mean df r (spec_latest_date df r)))))
       (sort (remdups (map region df)))"
    by (rule map_cong [OF refl]) (simp add: region_entry_def last_rolling_value_of_region)
  finally show ?thesis .
qed

subsection \<open>Loading, deriving and the program\<close>

lemma floor_rat_numeral: "\<lfloor>(numeral a / numeral b :: rat)\<rfloor> = numeral a div numeral b"
  by (metis floor_divide_of_int_eq of_int_numeral)

lemma len_col_0: "len_col c = 0 \<Longrightarrow> c = Int64 [] \<or> c = Float64 [] \<or> c = Object []"
  by (cases c) simp_all



lemma to_datetime_length: "to_datetime cs = Inr ds \<Longrightarrow> length ds = length cs"
  by (induction cs arbitrary: ds rule: to_datetime.induct) (auto split: sum.splits)

lemma load_rows_Nil: "load_rows [] rs ps vs = []"
  by (simp add: load_rows_def)

lemma report_numeric_Nil:
  "report_numeric [] =
     \<lparr>row_count = 0, regions_count = 0, top_n_products_by_revenue = [],
      rolling_7d_revenue_by_region = []\<rparr>"
  by (simp add: eval_defs)

lemma report_object_Nil:
  "report_object [] =
     Inr \<lparr>row_count = 0, regions_count = 0, top_n_products_by_revenue = [],
          rolling_7d_revenue_by_region = []\<rparr>"
  by (simp add: report_object_def top_products_list_object_def rolling_by_region_object_def
      eval_defs)

text \<open>
  On a table without missing cells the report of \<open>main\<close> is \<open>result_json\<close> of
  its records.
\<close>

lemma top_products_rank:
  "top_products agg df = rank_products agg (map (\<lambda>r. (product' r, revenue r)) df)"
  by (simp add: top_products_def rank_products_def)

lemma rolling_by_region_daily:
  "rolling_by_region df = rolling_of_daily (daily_region_revenue sum_list df)"
  by (simp add: rolling_by_region_def rolling_of_daily_def)

lemma map_filter_Some: "List.map_filter (\<lambda>x. Some (f x)) xs = map f xs"
  by (induction xs) (simp_all add: List.map_filter_simps)

lemma load_rows_complete:
  assumes "\<forall>r\<in>set rs. r \<notin> set na_values" "\<forall>p\<in>set ps. p \<notin> set na_values"
  shows "load_rows (map Some ds) rs ps vs
       = map (\<lambda>(d, r, p, v). (Some d, Some r, Some p, v)) (zip ds (zip rs (zip ps vs)))"
proof -
  have r: "map read_label rs = map Some rs" and p: "map read_label ps = map Some ps"
    using assms by (simp_all add: read_label_def)
  show ?thesis
    unfolding load_rows_def r p
    by (simp add: zip_map1 zip_map2 zip_map_map case_prod_unfold comp_def)
qed

lemma report_numeric_complete:
  assumes "\<forall>r\<in>set rs. r \<notin> set na_values" "\<forall>p\<in>set ps. p \<notin> set na_values"
  shows "report_numeric (load_rows (map Some ds) rs ps vs) = result_json (make_rows ds rs ps vs)"
proof -
  let ?z = "zip ds (zip rs (zip ps vs))"
  let ?t = "map (\<lambda>(d, r, p, v). (Some d, Some r, Some p, v)) ?z"
  let ?df = "make_rows ds rs ps vs"
  have pr: "product_revenue ?t = map (\<lambda>r. (product' r, revenue r)) ?df"
    by (simp add: product_revenue_def make_rows_def List.map_filter_def comp_def case_prod_unfold)
  have rd: "region_date_revenue ?t = map (\<lambda>r. ((region r, date r), revenue r)) ?df"
    by (simp add: region_date_revenue_def make_rows_def List.map_filter_def comp_def case_prod_unfold)
  have rl: "region_labels ?t = map region ?df"
    by (simp add: region_labels_def make_rows_def List.map_filter_def comp_def case_prod_unfold)
  have len: "length ?t = length ?df" by (simp add: make_rows_def)
  show ?thesis
    unfolding load_rows_complete [OF assms] report_numeric_def result_json_def pr rd rl len
    by (simp add: top_products_list_def top_products_rank rolling_by_region_daily
        daily_region_revenue_def)
qed



lemma rank_products_sorted: "sorted_wrt (\<lambda>a b. snd b \<le> snd a) (rank_products agg kvs)"
  unfolding rank_products_def by (rule sorted_wrt_head, rule sorted_sort_values_desc)

lemma report_numeric_sorted:
  "sorted_wrt (\<lambda>a b. snd b \<le> snd a) (top_n_products_by_revenue (report_numeric t))"
proof -
  have "sorted_wrt (\<lambda>a b. py_round2 (snd b) \<le> py_round2 (snd a))
      (rank_products sum_list (product_revenue t))"
    by (rule sorted_wrt_mono_rel [OF _ rank_products_sorted]) (simp add: py_round2_mono)
  then show ?thesis
    by (simp add: report_numeric_def sorted_wrt_map case_prod_unfold)
qed

lemma main_numeric_report:
  assumes "is_numeric (units_col df)" "is_numeric (price_col df)" "main df = Inr rep"
  shows "\<exists>t. rep = report_numeric t"
proof (cases "units_col df")
  case (Int64 us)
  then show ?thesis
    using assms by (cases "price_col df")
      (auto simp: main_def is_numeric_def split: sum.splits)
next
  case (Float64 us)
  then show ?thesis
    using assms by (cases "price_col df")
      (auto simp: main_def is_numeric_def split: sum.splits)
next
  case (Object ss)
  with assms show ?thesis by (simp add: is_numeric_def)
qed








section \<open>The claims\<close>

subsection \<open>Rolling average\<close>

text \<open>
  C2. For every region \<open>r\<close> of the input, the loop of line 54 visits \<open>r\<close> with its
  group, the daily series of the region: the dates of the region in ascending order,
  each with the daily revenue sum of the region. The rolling value at each date \<open>d\<close>
  of the series is the mean of the daily sums over the dates \<open>d'\<close> of the region with
  \<open>d - 6 \<le> d' \<le> d\<close>. When the region has revenue on two days only, more than six
  days apart (day 1 and day 10), the retained value is the daily total of the later
  day alone, and the report stores its rounding.
\<close>

theorem rolling_window_is_calendar_week:
  assumes "r \<in> set (map region df)"
  shows "(r, get_group (sort_index (daily_region_revenue sum_list df)) r)
           \<in> set (groupby_region (sort_index (daily_region_revenue sum_list df))) \<and>
         get_group (sort_index (daily_region_revenue sum_list df)) r
           = map (\<lambda>d. (d, spec_daily_revenue df r d)) (spec_region_dates df r) \<and>
         rolling_7D_mean (get_group (sort_index (daily_region_revenue sum_list df)) r)
           = map (\<lambda>d. Some (spec_window_mean df r d)) (spec_region_dates df r) \<and>
         (\<forall>a b. set (spec_region_dates df r) = {a, b} \<and> a + 6 < b \<longrightarrow>
            last_rolling_value (get_group (sort_index (daily_region_revenue sum_list df)) r)
              = Some (spec_daily_revenue df r b) \<and>
            (r, Some (py_round2 (spec_daily_revenue df r b)))
              \<in> set (rolling_7d_revenue_by_region (result_json df)))"
proof -
  let ?ds = "spec_region_dates df r"
  let ?s = "get_group (sort_index (daily_region_revenue sum_list df)) r"
  let ?G = "groupby_region (sort_index (daily_region_revenue sum_list df))"
  have s: "?s = map (\<lambda>d. (d, spec_daily_revenue df r d)) ?ds"
    by (rule group_rows)
  have mem: "(r, ?s) \<in> set ?G"
    using assms unfolding groups_eq s by auto
  have roll: "rolling_7D_mean ?s = map (\<lambda>d. Some (spec_window_mean df r d)) ?ds"
    unfolding s by (rule rolling_of_region)
  have gap: "last_rolling_value ?s = Some (spec_daily_revenue df r b) \<and>
      (r, Some (py_round2 (spec_daily_revenue df r b)))
         \<in> set (rolling_7d_revenue_by_region (result_json df))"
    if ab: "set ?ds = {a, b}" "a + 6 < b" for a b
  proof -
    have ds: "?ds = [a, b]"
      using spec_region_dates_sorted [of df r] ab
      by (intro sorted_distinct_set_unique) auto
    have "rolling_7D_mean ?s = [Some (spec_window_mean df r a), Some (spec_window_mean df r b)]"
      unfolding roll by (simp add: ds)
    moreover have "spec_window_mean df r b = spec_daily_revenue df r b"
      using ab(2) by (simp add: spec_window_mean_def ds)
    ultimately have l: "last_rolling_value ?s = Some (spec_daily_revenue df r b)"
      by (simp add: last_rolling_value_def)
    from mem have "region_entry r ?s \<in> set (rolling_by_region df)"
      unfolding rolling_by_region_def by force
    with l show ?thesis by (simp add: region_entry_def result_json_def)
  qed
  from gap have "\<forall>a b. set ?ds = {a, b} \<and> a + 6 < b \<longrightarrow>
      last_rolling_value ?s = Some (spec_daily_revenue df r b) \<and>
      (r, Some (py_round2 (spec_daily_revenue df r b)))
         \<in> set (rolling_7d_revenue_by_region (result_json df))"
    by blast
  with mem s roll show ?thesis by (intro conjI)
qed

text \<open>The witness: region \<open>North\<close> of \<open>gap_rows\<close>, with 5 on day 1 and 20 on day 10.\<close>

theorem rolling_window_is_calendar_week_witness:
  "''North'' \<in> set (map region gap_rows) \<and>
   spec_region_dates gap_rows ''North'' = [1, 10] \<and>
   spec_daily_revenue gap_rows ''North'' 1 = 5 \<and>
   spec_daily_revenue gap_rows ''North'' 10 = 20 \<and>
   get_group (sort_index (daily_region_revenue sum_list gap_rows)) ''North'' = [(1, 5), (10, 20)] \<and>
   rolling_7D_mean [(1, 5), (10, 20)] = [Some 5, Some 20] \<and>
   last_rolling_value [(1, 5), (10, 20)] = Some 20 \<and>
   (''North'', Some 20) \<in> set (rolling_7d_revenue_by_region (result_json gap_rows))"
proof -
  have r: "''North'' \<in> set (map region gap_rows)"
    by (simp add: gap_rows_def)
  have d: "spec_region_dates gap_rows ''North'' = [1, 10]"
    by (simp add: gap_rows_def spec_region_dates_def)
  have v: "spec_daily_revenue gap_rows ''North'' 1 = 5" "spec_daily_revenue gap_rows ''North'' 10 = 20"
    by (simp_all add: gap_rows_def spec_daily_revenue_def)
  have r20: "py_round2 20 = 20"
    by (simp add: py_round2_def round_half_even_def)
  note w = rolling_window_is_calendar_week [OF r]
  from w have s: "get_group (sort_index (daily_region_revenue sum_list gap_rows)) ''North''
      = [(1, 5), (10, 20)]"
    by (simp add: d v)
  from w have "last_rolling_value (get_group (sort_index (daily_region_revenue sum_list gap_rows)) ''North'')
        = Some (spec_daily_revenue gap_rows ''North'' 10) \<and>
      (''North'', Some (py_round2 (spec_daily_revenue gap_rows ''North'' 10)))
        \<in> set (rolling_7d_revenue_by_region (result_json gap_rows))"
    unfolding d by (elim conjE allE [of _ 1] allE [of _ 10]) simp
  then have l: "last_rolling_value [(1, 5), (10, 20)] = Some 20"
    and e: "(''North'', Some 20) \<in> set (rolling_7d_revenue_by_region (result_json gap_rows))"
    unfolding s v r20 by simp_all
  have m: "rolling_7D_mean [(1, 5), (10, 20)] = [Some 5, Some 20]"
    by (simp add: rolling_7D_mean_def window_7D_def mean_def)
  from r d v s m l e show ?thesis by (intro conjI)
qed

text \<open>
  C3, as amended. For every region of the input, the value stored in
  \<^verbatim>\<open>rolling_7d_revenue_by_region\<close> is the trailing-window average at the latest date
  of the region, computed over the daily revenue sums of the region, and rounded to two
  decimals. With one region, one date and two products of revenue 100 and 50 the
  stored value is 150.
\<close>

theorem rolling_map_values:
  "rolling_7d_revenue_by_region (result_json df)
     = map (\<lambda>r. (r, Some (py_round2 (spec_window_mean df r (spec_latest_date df r)))))
         (sort (remdups (map region df))) \<and>
   (\<forall>d r p q. rolling_7d_revenue_by_region (result_json
        [\<lparr>date = d, region = r, product' = p, revenue = 100\<rparr>,
         \<lparr>date = d, region = r, product' = q, revenue = 50\<rparr>]) = [(r, Some 150)])"
proof -
  have a: "rolling_7d_revenue_by_region (result_json df)
     = map (\<lambda>r. (r, Some (py_round2 (spec_window_mean df r (spec_latest_date df r)))))
         (sort (remdups (map region df)))" for df
    by (simp add: result_json_def rolling_by_region_eq)
  have r150: "py_round2 150 = 150"
    by (simp add: py_round2_def round_half_even_def)
  have "rolling_7d_revenue_by_region (result_json
        [\<lparr>date = d, region = r, product' = p, revenue = 100\<rparr>,
         \<lparr>date = d, region = r, product' = q, revenue = 50\<rparr>]) = [(r, Some 150)]" for d r p q
    unfolding a
    by (simp add: spec_window_mean_def spec_latest_date_def spec_region_dates_def
        spec_daily_revenue_def r150)
  with a [of df] show ?thesis by blast
qed

text \<open>
  C3 as stated fails where the rounding changes the average: one record of revenue
  1.234 gives the window average 1.234, and the report stores 1.23.
\<close>

theorem rolling_map_unrounded_counterexample:
  "rolling_7d_revenue_by_region (result_json round_rows) = [(''North'', Some (123 / 100))] \<and>
   spec_latest_date round_rows ''North'' = 1 \<and>
   spec_window_mean round_rows ''North'' 1 = 617 / 500"
  by code_simp

subsection \<open>Loading and errors\<close>

text \<open>
  C8. On an input without data rows the program succeeds, with \<^verbatim>\<open>row_count\<close> 0,
  \<^verbatim>\<open>regions_count\<close> 0, an empty list of top products and an empty rolling mapping.
\<close>

theorem empty_input_report:
  assumes "wf_frame df" "date_col df = []"
  shows "main df =
           Inr \<lparr>row_count = 0, regions_count = 0, top_n_products_by_revenue = [],
                rolling_7d_revenue_by_region = []\<rparr> \<and>
         exit_code (main df) = 0 \<and>
         stdout (main df) =
           Some \<lparr>row_count = 0, regions_count = 0, top_n_products_by_revenue = [],
                 rolling_7d_revenue_by_region = []\<rparr>"
proof -
  from assms have u: "units_col df = Int64 [] \<or> units_col df = Float64 [] \<or> units_col df = Object []"
    and p: "price_col df = Int64 [] \<or> price_col df = Float64 [] \<or> price_col df = Object []"
    by (simp_all add: wf_frame_def len_col_0)
  have "main df =
           Inr \<lparr>row_count = 0, regions_count = 0, top_n_products_by_revenue = [],
                rolling_7d_revenue_by_region = []\<rparr>"
    using u p assms(2)
    by (auto simp: main_def load_rows_Nil report_numeric_Nil report_object_Nil)
  then show ?thesis by (simp add: exit_code_def stdout_def)
qed

theorem empty_input_report_witness:
  "wf_frame empty_frame \<and> date_col empty_frame = [] \<and>
   main empty_frame =
     Inr \<lparr>row_count = 0, regions_count = 0, top_n_products_by_revenue = [],
          rolling_7d_revenue_by_region = []\<rparr> \<and>
   exit_code (main empty_frame) = 0"
proof -
  have h: "wf_frame empty_frame" "date_col empty_frame = []"
    by (simp_all add: empty_frame_def wf_frame_def)
  from empty_input_report [OF h] h show ?thesis by (simp add: exit_code_def)
qed

subsection \<open>Top products\<close>




text \<open>
  C4. On the input with the product labels \<^verbatim>\<open>NA\<close> and \<^verbatim>\<open>pen\<close> the list of top
  products has one entry, and the input has two distinct product values:
  \<^verbatim>\<open>read_csv\<close> reads the label \<^verbatim>\<open>NA\<close> as missing and
  \<^verbatim>\<open>groupby("product")\<close> drops its row, the row with the greater revenue
  (2 units at 3.5, against 3 units at 2 of \<^verbatim>\<open>pen\<close>).
\<close>

theorem missing_product_label:
  "product_col na_product_frame = [''NA'', ''pen''] \<and>
   main na_product_frame =
     Inr \<lparr>row_count = 2, regions_count = 1,
          top_n_products_by_revenue = [(''pen'', 6)],
          rolling_7d_revenue_by_region = [(''North'', Some 13)]\<rparr> \<and>
   min 3 (card (set (product_col na_product_frame))) = 2"
  by code_simp

text \<open>
  C5, as amended. When \<^verbatim>\<open>units\<close> and \<^verbatim>\<open>price\<close> are numeric columns, their
  numbers within the bound of \<open>in_float_range\<close>, and the labels are texts, the list
  of top products of every report is in descending order of revenue: the revenue of an
  entry is at least the revenue of the next one.
\<close>

theorem top_n_descending_numeric:
  assumes "labelled_frame df"
    and "is_numeric (units_col df)" "is_numeric (price_col df)"
    and "in_float_range (units_col df)" "in_float_range (price_col df)"
    and "main df = Inr rep"
  shows "\<forall>i. Suc i < length (top_n_products_by_revenue rep) \<longrightarrow>
           snd (top_n_products_by_revenue rep ! Suc i) \<le> snd (top_n_products_by_revenue rep ! i)"
proof -
  from main_numeric_report [OF assms(2,3,6)] obtain t where "rep = report_numeric t" ..
  then have "sorted_wrt (\<lambda>a b. snd b \<le> snd a) (top_n_products_by_revenue rep)"
    by (simp add: report_numeric_sorted)
  then show ?thesis by (simp add: sorted_wrt_iff_nth_less)
qed

text \<open>The witness: \<open>undated_region_frame\<close>, whose products have revenue 7 and 6.\<close>

theorem top_n_descending_numeric_witness:
  "labelled_frame undated_region_frame \<and>
   is_numeric (units_col undated_region_frame) \<and> is_numeric (price_col undated_region_frame) \<and>
   in_float_range (units_col undated_region_frame) \<and>
   in_float_range (price_col undated_region_frame) \<and>
   main undated_region_frame =
     Inr \<lparr>row_count = 2, regions_count = 2,
          top_n_products_by_revenue = [(''pen'', 7), (''ink'', 6)],
          rolling_7d_revenue_by_region = [(''North'', Some 7)]\<rparr> \<and>
   (6 :: rat) \<le> 7"
proof -
  have l: "labelled_frame undated_region_frame" by code_simp
  have h: "is_numeric (units_col undated_region_frame)" "is_numeric (price_col undated_region_frame)"
    "in_float_range (units_col undated_region_frame)" "in_float_range (price_col undated_region_frame)"
    by (simp_all add: undated_region_frame_def is_numeric_def in_float_range_def numbers_def)
  have m: "main undated_region_frame =
     Inr \<lparr>row_count = 2, regions_count = 2,
          top_n_products_by_revenue = [(''pen'', 7), (''ink'', 6)],
          rolling_7d_revenue_by_region = [(''North'', Some 7)]\<rparr>"
    by code_simp
  from top_n_descending_numeric [OF l h m] have "(6 :: rat) \<le> 7"
    by (elim allE [of _ 0]) simp
  with l h m show ?thesis by (intro conjI)
qed

text \<open>
  C5 as stated fails when the revenue is a text. In \<open>text_rank_frame\<close> the column
  \<^verbatim>\<open>units\<close> holds texts and the prices are integers, so line 12 repeats the texts
  and the sums of the products are the texts \<^verbatim>\<open>9\<close>, \<^verbatim>\<open>2\<close> and \<^verbatim>\<open>1e1\<close>.
  Line 31 sorts them as texts, and line 38 turns them into the revenues 9, 2 and 10.
\<close>

theorem top_n_texts_counterexample:
  "units_col text_rank_frame = Object [''9'', ''2'', ''1'', ''e'', ''1''] \<and>
   price_col text_rank_frame = Int64 [1, 1, 1, 1, 1] \<and>
   main text_rank_frame =
     Inr \<lparr>row_count = 5, regions_count = 1,
          top_n_products_by_revenue = [(''cap'', 9), (''ink'', 2), (''pen'', 10)],
          rolling_7d_revenue_by_region = [(''North'', Some 7)]\<rparr>"
  by code_simp

subsection \<open>Regions of the rolling mapping\<close>

text \<open>
  C6. On the input with the regions \<^verbatim>\<open>NA\<close> and \<^verbatim>\<open>EU\<close> the rolling mapping has
  the key \<^verbatim>\<open>EU\<close> alone: \<^verbatim>\<open>read_csv\<close> reads the label \<^verbatim>\<open>NA\<close> as missing
  and \<^verbatim>\<open>groupby(['region', 'date'])\<close> drops its row. On the input with the regions
  \<open>North\<close> and \<open>West\<close>, where the only row of \<open>West\<close> has an empty date,
  \<^verbatim>\<open>regions_count\<close> is 2 and the mapping has the key \<open>North\<close> alone: the
  grouping drops the row without a date, and the loop of line 54 never sees the region.
\<close>

theorem regions_without_key:
  "region_col na_region_frame = [''NA'', ''EU''] \<and>
   main na_region_frame =
     Inr \<lparr>row_count = 2, regions_count = 1,
          top_n_products_by_revenue = [(''pen'', 7), (''ink'', 6)],
          rolling_7d_revenue_by_region = [(''EU'', Some 6)]\<rparr> \<and>
   region_col undated_region_frame = [''North'', ''West''] \<and>
   date_col undated_region_frame = [Day 1, NaT] \<and>
   main undated_region_frame =
     Inr \<lparr>row_count = 2, regions_count = 2,
          top_n_products_by_revenue = [(''pen'', 7), (''ink'', 6)],
          rolling_7d_revenue_by_region = [(''North'', Some 7)]\<rparr>"
  by code_simp

subsection \<open>Revenue\<close>

text \<open>
  C7. On the input with 4294967296 units at the price 4294967296, both read as
  \<^verbatim>\<open>int64\<close>, the derived revenue is 0 and every metric reports 0, while units
  times price is 18446744073709551616: the product of line 12 wraps around at 64 bits.
\<close>

theorem revenue_wraps_at_64_bits:
  "units_col overflow_frame = Int64 [4294967296] \<and> price_col overflow_frame = Int64 [4294967296] \<and>
   mul_col (units_col overflow_frame) (price_col overflow_frame) = Inr (Int64 [0]) \<and>
   main overflow_frame =
     Inr \<lparr>row_count = 1, regions_count = 1,
          top_n_products_by_revenue = [(''pen'', 0)],
          rolling_7d_revenue_by_region = [(''North'', Some 0)]\<rparr> \<and>
   (4294967296 :: int) * 4294967296 = 18446744073709551616"
  by code_simp

subsection \<open>Failures\<close>




end
